theory Spec2Isabelle
  imports Main "HOL-Library.Word"
begin

unbundle bit_operations_syntax

section \<open>Snowflake identifiers: the generator and the decoder of snowflake.py\<close>

text \<open>
  Python integers are unbounded, so every integer of the source is an \<open>int\<close>.
  On \<open>int\<close> the operators \<open>x << n\<close>, \<open>x >> n\<close>, \<open>&\<close>, \<open>|\<close> and \<open>^\<close> of Python
  are \<open>push_bit n x\<close>, \<open>drop_bit n x\<close>, \<open>AND\<close>, \<open>OR\<close> and \<open>XOR\<close>: both sides read a
  negative number as an infinite two's complement and shift right by flooring.
\<close>

subsection \<open>Class constants (lines 4 to 11)\<close>

definition MACHINE_ID_BITS :: nat where
  "MACHINE_ID_BITS = 10"

definition SEQUENCE_BITS :: nat where
  "SEQUENCE_BITS = 12"

definition MAX_MACHINE_ID :: int where
  "MAX_MACHINE_ID = (- 1) XOR (push_bit MACHINE_ID_BITS (- 1))"

definition MAX_SEQUENCE :: int where
  "MAX_SEQUENCE = (- 1) XOR (push_bit SEQUENCE_BITS (- 1))"

definition MACHINE_ID_SHIFT :: nat where
  "MACHINE_ID_SHIFT = SEQUENCE_BITS"

definition TIMESTAMP_LEFT_SHIFT :: nat where
  "TIMESTAMP_LEFT_SHIFT = SEQUENCE_BITS + MACHINE_ID_BITS"

subsection \<open>The generator object and its constructor (lines 13 to 20)\<close>

text \<open>
  The two exceptions of the source: \<open>ValueError\<close> from the constructor and the plain
  \<open>Exception\<close> of a clock that moved backwards, each with its message.
\<close>

datatype error = ValueError string | Exception string

record generator =
  epoch :: int
  machine_id :: int
  last_timestamp :: int
  generated_sequences :: "int set"

text \<open>
  \<open>__init__\<close> assigns the four attributes and then checks the machine id; when the check
  raises, the caller gets no object. The message is an f-string that prints
  \<open>MAX_MACHINE_ID\<close>, which is 1023 (lemma \<open>MAX_MACHINE_ID_value\<close> below).
\<close>

definition init :: "int \<Rightarrow> int \<Rightarrow> error + generator" where
  "init epoch_arg machine_id_arg =
     (let self = \<lparr> epoch = epoch_arg, machine_id = machine_id_arg,
                    last_timestamp = - 1, generated_sequences = {} \<rparr>
      in if machine_id self < 0 \<or> machine_id self > MAX_MACHINE_ID
         then Inl (ValueError ''Machine ID must be between 0 and 1023'')
         else Inr self)"

subsection \<open>Random draws\<close>

text \<open>
  \<open>random.randint(a, b)\<close> returns an integer \<open>N\<close> with \<open>a \<le> N \<le> b\<close>. The entropy behind
  the module-level generator is a sequence of raw draws; the position in that sequence is
  the state of the \<open>random\<close> module, and it advances by one with each draw. Every value of
  the range is reached by some raw draw.
\<close>

type_synonym entropy = "nat \<Rightarrow> nat"

definition randint :: "int \<Rightarrow> int \<Rightarrow> nat \<Rightarrow> int" where
  "randint a b raw = a + int (raw mod nat (b - a + 1))"

subsection \<open>generate_id (lines 26 to 46)\<close>

text \<open>
  The loop of lines 36 to 40: draw until the value is not in \<open>generated_sequences\<close>, add
  it and leave. Nothing bounds the number of rounds, so the loop is a partial function:
  \<open>None\<close> is a loop that never ends.
\<close>

partial_function (option) sequence_loop ::
  "entropy \<Rightarrow> generator \<Rightarrow> nat \<Rightarrow> (int \<times> generator \<times> nat) option" where
  "sequence_loop rnd self pos =
     (let sequence = randint 0 MAX_SEQUENCE (rnd pos)
      in if sequence \<notin> generated_sequences self
         then Some (sequence,
                    self\<lparr>generated_sequences := insert sequence (generated_sequences self)\<rparr>,
                    Suc pos)
         else sequence_loop rnd self (Suc pos))"

declare sequence_loop.simps [code]

text \<open>Lines 32 to 34: a new clock reading clears the set and is recorded.\<close>

definition new_millisecond :: "generator \<Rightarrow> int \<Rightarrow> generator" where
  "new_millisecond self timestamp =
     (if timestamp \<noteq> last_timestamp self
      then self\<lparr>generated_sequences := {}, last_timestamp := timestamp\<rparr>
      else self)"

text \<open>Lines 42 to 44: the three fields packed into one integer.\<close>

definition pack :: "int \<Rightarrow> int \<Rightarrow> int \<Rightarrow> int" where
  "pack timestamp_delta machine sequence =
     push_bit TIMESTAMP_LEFT_SHIFT timestamp_delta
       OR push_bit MACHINE_ID_SHIFT machine
       OR sequence"

text \<open>
  \<open>generate_id\<close> takes the reading of \<open>current_time()\<close> as \<open>timestamp\<close> and the position
  in the entropy. It returns the outcome (the exception or the id), the generator as the
  call leaves it and the new position; \<open>None\<close> when the call never returns.
\<close>

definition generate_id ::
  "entropy \<Rightarrow> generator \<Rightarrow> int \<Rightarrow> nat \<Rightarrow> ((error + int) \<times> generator \<times> nat) option" where
  "generate_id rnd self timestamp pos =
     (if timestamp < last_timestamp self
      then Some (Inl (Exception ''Clock moved backwards. Refusing to generate id''), self, pos)
      else case sequence_loop rnd (new_millisecond self timestamp) pos of
             None \<Rightarrow> None
           | Some (sequence, self', pos') \<Rightarrow>
               Some (Inr (pack (timestamp - epoch self') (machine_id self') sequence),
                     self', pos'))"

subsection \<open>parse_snowflake_id (lines 48 to 52)\<close>

definition parse_snowflake_id :: "int \<Rightarrow> int \<Rightarrow> int \<times> int \<times> int" where
  "parse_snowflake_id snowflake_id epoch_arg =
     (let timestamp = drop_bit TIMESTAMP_LEFT_SHIFT snowflake_id + epoch_arg;
          machine = drop_bit MACHINE_ID_SHIFT snowflake_id AND MAX_MACHINE_ID;
          sequence = snowflake_id AND MAX_SEQUENCE
      in (timestamp, machine, sequence))"

subsection \<open>A caller issuing several calls\<close>

text \<open>
  One call of \<open>generate_id\<close> per clock reading of the list, in order, on the same
  generator and the same entropy, as the usage loop of lines 62 to 68 does. This caller
  catches the exception of a call and goes on, so it keeps every outcome. The run returns
  only if every call does.
\<close>

fun generate_ids ::
  "entropy \<Rightarrow> generator \<Rightarrow> int list \<Rightarrow> nat \<Rightarrow> ((error + int) list \<times> generator \<times> nat) option" where
  "generate_ids rnd self [] pos = Some ([], self, pos)"
| "generate_ids rnd self (t # ts) pos =
     (case generate_id rnd self t pos of
        None \<Rightarrow> None
      | Some (r, self', pos') \<Rightarrow>
          (case generate_ids rnd self' ts pos' of
             None \<Rightarrow> None
           | Some (rs, self'', pos'') \<Rightarrow> Some (r # rs, self'', pos'')))"

text \<open>The ids among the outcomes of a run, in the order of the calls.\<close>

fun ids_of :: "(error + int) list \<Rightarrow> int list" where
  "ids_of [] = []"
| "ids_of (Inl e # rs) = ids_of rs"
| "ids_of (Inr i # rs) = i # ids_of rs"

section \<open>Values of the class constants\<close>

lemma MAX_MACHINE_ID_value: "MAX_MACHINE_ID = 1023"
  by (simp add: MAX_MACHINE_ID_def MACHINE_ID_BITS_def mask_eq_exp_minus_1)

lemma MAX_SEQUENCE_value: "MAX_SEQUENCE = 4095"
  by (simp add: MAX_SEQUENCE_def SEQUENCE_BITS_def mask_eq_exp_minus_1)

lemma MACHINE_ID_SHIFT_value: "MACHINE_ID_SHIFT = 12"
  by (simp add: MACHINE_ID_SHIFT_def SEQUENCE_BITS_def)

lemma TIMESTAMP_LEFT_SHIFT_value: "TIMESTAMP_LEFT_SHIFT = 22"
  by (simp add: TIMESTAMP_LEFT_SHIFT_def SEQUENCE_BITS_def MACHINE_ID_BITS_def)

lemmas constant_values =
  MAX_MACHINE_ID_value MAX_SEQUENCE_value MACHINE_ID_SHIFT_value TIMESTAMP_LEFT_SHIFT_value

lemma and_4095: "(x::int) AND 4095 = take_bit 12 x"
  by (simp add: take_bit_eq_mask mask_eq_exp_minus_1)

lemma and_1023: "(x::int) AND 1023 = take_bit 10 x"
  by (simp add: take_bit_eq_mask mask_eq_exp_minus_1)

lemma parse_unfolded:
  "parse_snowflake_id i e = (drop_bit 22 i + e, take_bit 10 (drop_bit 12 i), take_bit 12 i)"
  by (simp add: parse_snowflake_id_def constant_values and_4095 and_1023)

lemma randint_range: "a \<le> b \<Longrightarrow> a \<le> randint a b raw \<and> randint a b raw \<le> b"
proof -
  assume "a \<le> b"
  then have "0 < nat (b - a + 1)" by simp
  then have "raw mod nat (b - a + 1) < nat (b - a + 1)" by (rule mod_less_divisor)
  then show ?thesis by (simp add: randint_def)
qed

lemma randint_onto: "a \<le> n \<Longrightarrow> n \<le> b \<Longrightarrow> randint a b (nat (n - a)) = n"
  by (simp add: randint_def)

lemma sequence_loop_Some:
  assumes "sequence_loop rnd g pos = Some r"
  shows "fst r \<notin> generated_sequences g \<and> 0 \<le> fst r \<and> fst r \<le> 4095
         \<and> fst (snd r) = g\<lparr>generated_sequences := insert (fst r) (generated_sequences g)\<rparr>
         \<and> pos < snd (snd r)"
proof (rule sequence_loop.raw_induct [where P = "\<lambda>rnd g pos r.
    fst r \<notin> generated_sequences g \<and> 0 \<le> fst r \<and> fst r \<le> 4095
    \<and> fst (snd r) = g\<lparr>generated_sequences := insert (fst r) (generated_sequences g)\<rparr>
    \<and> pos < snd (snd r)", OF _ assms], goal_cases)
  case (1 loop rnd g pos r)
  show ?case
  proof (cases "randint 0 MAX_SEQUENCE (rnd pos) \<in> generated_sequences g")
    case True
    with 1(2) have "loop rnd g (Suc pos) = Some r" by (simp add: Let_def)
    from 1(1) [OF this] show ?thesis by auto
  next
    case False
    with 1(2) have "r = (randint 0 MAX_SEQUENCE (rnd pos),
        g\<lparr>generated_sequences := insert (randint 0 MAX_SEQUENCE (rnd pos)) (generated_sequences g)\<rparr>, Suc pos)"
      by (simp add: Let_def)
    with False randint_range [of 0 4095 "rnd pos"] show ?thesis
      by (simp add: MAX_SEQUENCE_value)
  qed
qed

lemma sequence_loop_returns:
  "randint 0 MAX_SEQUENCE (rnd (pos + k)) \<notin> generated_sequences g \<Longrightarrow>
   sequence_loop rnd g pos \<noteq> None"
proof (induction k arbitrary: pos)
  case 0
  then show ?case by (subst sequence_loop.simps) (simp add: Let_def)
next
  case (Suc k)
  from Suc.prems have "randint 0 MAX_SEQUENCE (rnd (Suc pos + k)) \<notin> generated_sequences g" by simp
  from Suc.IH [OF this] have "sequence_loop rnd g (Suc pos) \<noteq> None" .
  then show ?case by (subst sequence_loop.simps) (simp add: Let_def)
qed

lemma sequence_loop_exhausted:
  "{0..4095} \<subseteq> generated_sequences g \<Longrightarrow> sequence_loop rnd g pos = None"
proof (rule ccontr)
  assume full: "{0..4095} \<subseteq> generated_sequences g" and "sequence_loop rnd g pos \<noteq> None"
  then obtain r where "sequence_loop rnd g pos = Some r" by auto
  from sequence_loop_Some [OF this] full show False by auto
qed

section \<open>Packing and unpacking\<close>

lemma pack_unfolded: "pack d m s = push_bit 22 d OR push_bit 12 m OR s"
  by (simp add: pack_def constant_values)

lemma sequence_of_pack:
  assumes "0 \<le> s" "s \<le> 4095"
  shows "take_bit 12 (pack d m s) = s"
proof -
  from assms have s: "take_bit 12 s = s" by (simp add: take_bit_int_eq_self)
  have "take_bit 12 (push_bit 22 d OR push_bit 12 m OR s) = take_bit 12 s"
    by (auto simp add: bit_eq_iff bit_simps)
  then show ?thesis by (simp add: pack_unfolded s)
qed

lemma machine_of_pack:
  assumes "0 \<le> m" "m \<le> 1023" "0 \<le> s" "s \<le> 4095"
  shows "take_bit 10 (drop_bit 12 (pack d m s)) = m"
proof -
  from assms have s: "take_bit 12 s = s" and m: "take_bit 10 m = m"
    by (simp_all add: take_bit_int_eq_self)
  have "take_bit 10 (drop_bit 12 (push_bit 22 d OR push_bit 12 m OR take_bit 12 s)) = take_bit 10 m"
    by (auto simp add: bit_eq_iff bit_simps)
  then show ?thesis by (simp add: pack_unfolded s m)
qed

lemma delta_of_pack:
  assumes "0 \<le> m" "m \<le> 1023" "0 \<le> s" "s \<le> 4095"
  shows "drop_bit 22 (pack d m s) = d"
proof -
  from assms have s: "take_bit 12 s = s" and m: "take_bit 10 m = m"
    by (simp_all add: take_bit_int_eq_self)
  have "drop_bit 22 (push_bit 22 d OR push_bit 12 (take_bit 10 m) OR take_bit 12 s) = d"
    by (auto simp add: bit_eq_iff bit_simps)
  then show ?thesis by (simp add: pack_unfolded s m)
qed

lemma parse_pack:
  assumes "0 \<le> m" "m \<le> 1023" "0 \<le> s" "s \<le> 4095"
  shows "parse_snowflake_id (pack d m s) e = (d + e, m, s)"
  using assms by (simp add: parse_unfolded sequence_of_pack machine_of_pack delta_of_pack)

lemma parse_sequence: "snd (snd (parse_snowflake_id i e)) = take_bit 12 i"
  by (simp add: parse_unfolded)

lemma pack_masked:
  assumes "0 \<le> m" "m \<le> 1023" "0 \<le> s" "s \<le> 4095"
  shows "pack d (m AND MAX_MACHINE_ID) (s AND MAX_SEQUENCE) = pack d m s"
  using assms by (simp add: constant_values and_4095 and_1023 take_bit_int_eq_self)

section \<open>One call\<close>

lemma new_millisecond_fields [simp]:
  "epoch (new_millisecond g t) = epoch g"
  "machine_id (new_millisecond g t) = machine_id g"
  by (simp_all add: new_millisecond_def)

lemma new_millisecond_last: "last_timestamp (new_millisecond g t) = t"
  by (simp add: new_millisecond_def)

lemma new_millisecond_same: "last_timestamp g = t \<Longrightarrow> new_millisecond g t = g"
  by (simp add: new_millisecond_def)

lemma generate_id_Inl:
  assumes "generate_id rnd g t pos = Some (Inl x, g', pos')"
  shows "t < last_timestamp g \<and> g' = g \<and> pos' = pos"
  using assms by (auto simp add: generate_id_def split: if_splits option.splits)

lemma generate_id_Inr:
  assumes "generate_id rnd g t pos = Some (Inr i, g', pos')"
  shows "last_timestamp g \<le> t \<and>
         (\<exists>s. sequence_loop rnd (new_millisecond g t) pos = Some (s, g', pos')
              \<and> i = pack (t - epoch g) (machine_id g) s)"
proof -
  from assms have le: "last_timestamp g \<le> t"
    by (auto simp add: generate_id_def split: if_splits)
  with assms obtain s where loop: "sequence_loop rnd (new_millisecond g t) pos = Some (s, g', pos')"
    and i: "i = pack (t - epoch g') (machine_id g') s"
    by (auto simp add: generate_id_def split: option.splits)
  from sequence_loop_Some [OF loop] have "epoch g' = epoch g" "machine_id g' = machine_id g"
    by simp_all
  with le loop i show ?thesis by simp
qed

text \<open>What a successful call leaves behind.\<close>

lemma generate_id_Inr_state:
  assumes "generate_id rnd g t pos = Some (Inr i, g', pos')"
  shows "\<exists>s. s \<notin> generated_sequences (new_millisecond g t) \<and> 0 \<le> s \<and> s \<le> 4095
           \<and> g' = g\<lparr>generated_sequences := insert s (generated_sequences (new_millisecond g t)),
                     last_timestamp := t\<rparr>
           \<and> i = pack (t - epoch g) (machine_id g) s \<and> take_bit 12 i = s"
proof -
  from generate_id_Inr [OF assms] obtain s
    where loop: "sequence_loop rnd (new_millisecond g t) pos = Some (s, g', pos')"
      and i: "i = pack (t - epoch g) (machine_id g) s" by blast
  from sequence_loop_Some [OF loop]
  have s: "s \<notin> generated_sequences (new_millisecond g t)" "0 \<le> s" "s \<le> 4095"
    and g': "g' = (new_millisecond g t)\<lparr>generated_sequences :=
                 insert s (generated_sequences (new_millisecond g t))\<rparr>"
    by simp_all
  from g' have "g' = g\<lparr>generated_sequences := insert s (generated_sequences (new_millisecond g t)),
                     last_timestamp := t\<rparr>"
    by (simp add: new_millisecond_def)
  with s i sequence_of_pack [OF s(2,3)] show ?thesis by blast
qed

lemma generate_id_fields:
  assumes "generate_id rnd g t pos = Some (r, g', pos')"
  shows "epoch g' = epoch g \<and> machine_id g' = machine_id g"
proof (cases r)
  case (Inl x)
  with generate_id_Inl assms show ?thesis by blast
next
  case (Inr i)
  with generate_id_Inr_state assms obtain s where
    "g' = g\<lparr>generated_sequences := insert s (generated_sequences (new_millisecond g t)),
                     last_timestamp := t\<rparr>" by blast
  then show ?thesis by simp
qed

lemma generate_id_exhausted:
  assumes "{0..4095} \<subseteq> generated_sequences g" "last_timestamp g = t"
  shows "generate_id rnd g t pos = None"
  using assms by (simp add: generate_id_def new_millisecond_same sequence_loop_exhausted)

section \<open>Several calls\<close>

lemma generate_ids_Cons:
  assumes "generate_ids rnd g (t # ts) pos = Some (rs, g'', pos'')"
  obtains r g' pos' rs' where "generate_id rnd g t pos = Some (r, g', pos')"
    and "generate_ids rnd g' ts pos' = Some (rs', g'', pos'')" and "rs = r # rs'"
  using assms by (auto split: option.splits)

lemma generate_ids_length:
  "generate_ids rnd g ts pos = Some (rs, g', pos') \<Longrightarrow> length rs = length ts"
proof (induction ts arbitrary: g pos rs)
  case Nil
  then show ?case by simp
next
  case (Cons t ts)
  from Cons.prems show ?case
    by (rule generate_ids_Cons) (use Cons.IH in auto)
qed

lemma generate_ids_fields:
  "generate_ids rnd g ts pos = Some (rs, g', pos') \<Longrightarrow>
   epoch g' = epoch g \<and> machine_id g' = machine_id g"
proof (induction ts arbitrary: g pos rs)
  case Nil
  then show ?case by simp
next
  case (Cons t ts)
  from Cons.prems show ?case
  proof (rule generate_ids_Cons)
    fix r g1 pos1 rs1
    assume "generate_id rnd g t pos = Some (r, g1, pos1)"
      and "generate_ids rnd g1 ts pos1 = Some (rs1, g', pos')"
    with Cons.IH generate_id_fields show ?thesis by metis
  qed
qed

lemma generate_ids_nth:
  assumes "generate_ids rnd g ts pos = Some (rs, g', pos')"
    and "0 \<le> machine_id g" "machine_id g \<le> 1023"
    and "j < length ts" "rs ! j = Inr i"
  shows "fst (parse_snowflake_id i (epoch g)) = ts ! j
         \<and> fst (snd (parse_snowflake_id i (epoch g))) = machine_id g"
  using assms
proof (induction ts arbitrary: g pos rs j)
  case Nil
  then show ?case by simp
next
  case (Cons t ts)
  from Cons.prems(1) show ?case
  proof (rule generate_ids_Cons)
    fix r g1 pos1 rs1
    assume call: "generate_id rnd g t pos = Some (r, g1, pos1)"
      and rest: "generate_ids rnd g1 ts pos1 = Some (rs1, g', pos')" and rs: "rs = r # rs1"
    from generate_id_fields [OF call] have same: "epoch g1 = epoch g" "machine_id g1 = machine_id g"
      by simp_all
    show ?thesis
    proof (cases j)
      case 0
      with rs Cons.prems(5) have "generate_id rnd g t pos = Some (Inr i, g1, pos1)"
        using call by simp
      from generate_id_Inr_state [OF this] obtain s where "0 \<le> s" "s \<le> 4095"
        and "i = pack (t - epoch g) (machine_id g) s" by blast
      with parse_pack [OF Cons.prems(2,3), of s "t - epoch g" "epoch g"] 0 show ?thesis by simp
    next
      case (Suc k)
      with Cons.prems rs have "k < length ts" "rs1 ! k = Inr i" by simp_all
      from Cons.IH [OF rest _ _ this] Cons.prems(2,3) same Suc show ?thesis by simp
    qed
  qed
qed

section \<open>Calls under a frozen clock\<close>

lemma ids_of_sequences_range_aux: "take_bit 12 (i::int) \<in> {0..4095}"
  using take_bit_int_less_exp [of 12 i] by simp

lemma generate_ids_regressed:
  "t < last_timestamp g \<Longrightarrow> generate_ids rnd g (replicate n t) pos = Some (rs, g', pos') \<Longrightarrow>
   ids_of rs = [] \<and> g' = g"
proof (induction n arbitrary: rs)
  case 0
  then show ?case by simp
next
  case (Suc n)
  from Suc.prems(1) have call: "generate_id rnd g t pos =
      Some (Inl (Exception ''Clock moved backwards. Refusing to generate id''), g, pos)"
    by (simp add: generate_id_def)
  with Suc.prems(2) obtain rs' where "generate_ids rnd g (replicate n t) pos = Some (rs', g', pos')"
    and "rs = Inl (Exception ''Clock moved backwards. Refusing to generate id'') # rs'"
    by (auto split: option.splits)
  with Suc.IH [OF Suc.prems(1)] show ?case by simp
qed

lemma frozen_same:
  assumes "generate_ids rnd g (replicate n t) pos = Some (rs, g', pos')"
    and "last_timestamp g = t"
  shows "distinct (map (take_bit 12) (ids_of rs))
       \<and> set (map (take_bit 12) (ids_of rs)) \<inter> generated_sequences g = {}
       \<and> generated_sequences g' = generated_sequences g \<union> set (map (take_bit 12) (ids_of rs))
       \<and> last_timestamp g' = t \<and> length (ids_of rs) = n"
  using assms
proof (induction n arbitrary: g pos rs)
  case 0
  then show ?case by simp
next
  case (Suc n)
  from Suc.prems(1) have "generate_ids rnd g (t # replicate n t) pos = Some (rs, g', pos')"
    by simp
  then show ?case
  proof (rule generate_ids_Cons)
    fix r g1 pos1 rs1
    assume call: "generate_id rnd g t pos = Some (r, g1, pos1)"
      and rest: "generate_ids rnd g1 (replicate n t) pos1 = Some (rs1, g', pos')"
      and rs: "rs = r # rs1"
    from call Suc.prems(2) obtain i where r: "r = Inr i"
      by (cases r) (auto dest: generate_id_Inl)
    from generate_id_Inr_state [OF call [unfolded r]] Suc.prems(2)
    obtain s where s: "s \<notin> generated_sequences g"
      and g1: "g1 = g\<lparr>generated_sequences := insert s (generated_sequences g), last_timestamp := t\<rparr>"
      and i: "take_bit 12 i = s"
      by (auto simp add: new_millisecond_same)
    from g1 have last1: "last_timestamp g1 = t"
      and gs1: "generated_sequences g1 = insert s (generated_sequences g)" by simp_all
    from Suc.IH [OF rest last1] gs1
    have d: "distinct (map (take_bit 12) (ids_of rs1))"
      and disj: "set (map (take_bit 12) (ids_of rs1)) \<inter> insert s (generated_sequences g) = {}"
      and gs': "generated_sequences g' = insert s (generated_sequences g) \<union> set (map (take_bit 12) (ids_of rs1))"
      and last': "last_timestamp g' = t" and len: "length (ids_of rs1) = n"
      by simp_all
    from disj have notin: "s \<notin> set (map (take_bit 12) (ids_of rs1))"
      and disj': "set (map (take_bit 12) (ids_of rs1)) \<inter> generated_sequences g = {}" by auto
    from rs r i have seqs: "map (take_bit 12) (ids_of rs) = s # map (take_bit 12) (ids_of rs1)"
      and len': "length (ids_of rs) = Suc (length (ids_of rs1))" by simp_all
    from d notin have "distinct (map (take_bit 12) (ids_of rs))" unfolding seqs by simp
    moreover from disj' s have "set (map (take_bit 12) (ids_of rs)) \<inter> generated_sequences g = {}"
      unfolding seqs by simp
    moreover from gs' have "generated_sequences g' =
        generated_sequences g \<union> set (map (take_bit 12) (ids_of rs))"
      unfolding seqs by auto
    ultimately show ?thesis using last' len len' by simp
  qed
qed

lemma frozen_run:
  assumes "generate_ids rnd g (replicate n t) pos = Some (rs, g', pos')"
    and "last_timestamp g \<le> t" and "0 < n"
  shows "distinct (map (take_bit 12) (ids_of rs))
       \<and> set (map (take_bit 12) (ids_of rs)) \<inter> generated_sequences (new_millisecond g t) = {}
       \<and> generated_sequences g' =
           generated_sequences (new_millisecond g t) \<union> set (map (take_bit 12) (ids_of rs))
       \<and> last_timestamp g' = t \<and> length (ids_of rs) = n"
proof -
  from assms(3) obtain k where n: "n = Suc k" by (cases n) auto
  with assms(1) have "generate_ids rnd g (t # replicate k t) pos = Some (rs, g', pos')" by simp
  then show ?thesis
  proof (rule generate_ids_Cons)
    fix r g1 pos1 rs1
    assume call: "generate_id rnd g t pos = Some (r, g1, pos1)"
      and rest: "generate_ids rnd g1 (replicate k t) pos1 = Some (rs1, g', pos')"
      and rs: "rs = r # rs1"
    from call assms(2) obtain i where r: "r = Inr i"
      by (cases r) (auto dest: generate_id_Inl)
    from generate_id_Inr_state [OF call [unfolded r]]
    obtain s where s: "s \<notin> generated_sequences (new_millisecond g t)"
      and g1: "g1 = g\<lparr>generated_sequences := insert s (generated_sequences (new_millisecond g t)),
                       last_timestamp := t\<rparr>"
      and i: "take_bit 12 i = s"
      by auto
    from g1 have last1: "last_timestamp g1 = t"
      and gs1: "generated_sequences g1 = insert s (generated_sequences (new_millisecond g t))"
      by simp_all
    from frozen_same [OF rest last1] gs1
    have d: "distinct (map (take_bit 12) (ids_of rs1))"
      and disj: "set (map (take_bit 12) (ids_of rs1))
                   \<inter> insert s (generated_sequences (new_millisecond g t)) = {}"
      and gs': "generated_sequences g' = insert s (generated_sequences (new_millisecond g t))
                   \<union> set (map (take_bit 12) (ids_of rs1))"
      and last': "last_timestamp g' = t" and len: "length (ids_of rs1) = k"
      by simp_all
    from disj have notin: "s \<notin> set (map (take_bit 12) (ids_of rs1))"
      and disj': "set (map (take_bit 12) (ids_of rs1))
                    \<inter> generated_sequences (new_millisecond g t) = {}" by auto
    from rs r i have seqs: "map (take_bit 12) (ids_of rs) = s # map (take_bit 12) (ids_of rs1)"
      and len': "length (ids_of rs) = Suc (length (ids_of rs1))" by simp_all
    from d notin have "distinct (map (take_bit 12) (ids_of rs))" unfolding seqs by simp
    moreover from disj' s
    have "set (map (take_bit 12) (ids_of rs)) \<inter> generated_sequences (new_millisecond g t) = {}"
      unfolding seqs by simp
    moreover from gs' have "generated_sequences g' =
        generated_sequences (new_millisecond g t) \<union> set (map (take_bit 12) (ids_of rs))"
      unfolding seqs by auto
    ultimately show ?thesis using last' len len' n by simp
  qed
qed

lemma frozen_any:
  assumes "generate_ids rnd g (replicate n t) pos = Some (rs, g', pos')"
  shows "distinct (map (take_bit 12) (ids_of rs))
       \<and> set (map (take_bit 12) (ids_of rs)) \<subseteq> generated_sequences g'"
proof (cases "0 < n \<and> last_timestamp g \<le> t")
  case True
  with frozen_run [OF assms] show ?thesis by auto
next
  case False
  show ?thesis
  proof (cases "n = 0")
    case True
    with assms show ?thesis by simp
  next
    case False
    with \<open>\<not> (0 < n \<and> last_timestamp g \<le> t)\<close> have "t < last_timestamp g" by simp
    from generate_ids_regressed [OF this assms] show ?thesis by simp
  qed
qed

lemma distinct_map_imp_distinct: "distinct (map f xs) \<Longrightarrow> distinct xs"
  by (simp add: distinct_map)

lemma sequences_full:
  assumes "distinct (xs :: int list)" "set xs \<subseteq> {0..4095}" "length xs = 4096"
  shows "set xs = {0..4095}"
proof (rule card_subset_eq)
  show "finite {0..4095::int}" by simp
  show "set xs \<subseteq> {0..4095}" by fact
  from assms(1,3) have "card (set xs) = 4096" by (simp add: distinct_card)
  then show "card (set xs) = card {0..4095::int}" by simp
qed

lemma sequences_in_range: "set (map (take_bit 12) (xs :: int list)) \<subseteq> {0..4095}"
  using ids_of_sequences_range_aux by auto

lemma exhausted_after_4096:
  assumes "generate_ids rnd g0 (replicate 4096 t) pos0 = Some (rs, g, pos)"
    and "last_timestamp g0 \<le> t"
  shows "{0..4095} \<subseteq> generated_sequences g \<and> last_timestamp g = t"
proof -
  from frozen_run [OF assms] have d: "distinct (map (take_bit 12) (ids_of rs))"
    and gs: "generated_sequences g =
           generated_sequences (new_millisecond g0 t) \<union> set (map (take_bit 12) (ids_of rs))"
    and last: "last_timestamp g = t" and len: "length (ids_of rs) = 4096" by simp_all
  from len have "length (map (take_bit 12) (ids_of rs)) = 4096" by simp
  from sequences_full [OF d sequences_in_range this] gs last show ?thesis by simp
qed

section \<open>A run that uses up a millisecond\<close>

lemma counting_call:
  assumes "last_timestamp g \<le> t" "generated_sequences (new_millisecond g t) = int ` {0..<k}"
    and "k < 4096"
  shows "generate_id (\<lambda>i. i) g t k =
    Some (Inr (pack (t - epoch g) (machine_id g) (int k)),
          g\<lparr>generated_sequences := int ` {0..<Suc k}, last_timestamp := t\<rparr>, Suc k)"
proof -
  from assms(3) have draw: "randint 0 MAX_SEQUENCE k = int k"
    by (simp add: randint_def MAX_SEQUENCE_value)
  have fresh: "int k \<notin> int ` {0..<k}" by auto
  have ins: "insert (int k) (int ` {0..<k}) = int ` {0..<Suc k}" by (auto simp add: less_Suc_eq)
  have "sequence_loop (\<lambda>i. i) (new_millisecond g t) k =
      Some (int k, (new_millisecond g t)\<lparr>generated_sequences := int ` {0..<Suc k}\<rparr>, Suc k)"
    by (subst sequence_loop.simps) (simp add: draw assms(2) fresh ins)
  moreover have "(new_millisecond g t)\<lparr>generated_sequences := int ` {0..<Suc k}\<rparr>
      = g\<lparr>generated_sequences := int ` {0..<Suc k}, last_timestamp := t\<rparr>"
    by (simp add: new_millisecond_def)
  ultimately show ?thesis using assms(1) by (simp add: generate_id_def)
qed

lemma counting_run:
  assumes "last_timestamp g \<le> t" "generated_sequences (new_millisecond g t) = int ` {0..<k}"
    and "k + n \<le> 4096"
  shows "\<exists>rs g'. generate_ids (\<lambda>i. i) g (replicate n t) k = Some (rs, g', k + n)"
  using assms
proof (induction n arbitrary: g k)
  case 0
  then show ?case by simp
next
  case (Suc n)
  from Suc.prems(3) have "k < 4096" by simp
  note call = counting_call [OF Suc.prems(1,2) this]
  let ?g1 = "g\<lparr>generated_sequences := int ` {0..<Suc k}, last_timestamp := t\<rparr>"
  have "last_timestamp ?g1 \<le> t"
    and "generated_sequences (new_millisecond ?g1 t) = int ` {0..<Suc k}"
    by (simp_all add: new_millisecond_def)
  moreover from Suc.prems(3) have "Suc k + n \<le> 4096" by simp
  ultimately obtain rs g' where
    "generate_ids (\<lambda>i. i) ?g1 (replicate n t) (Suc k) = Some (rs, g', Suc k + n)"
    using Suc.IH by blast
  with call show ?case by simp
qed

section \<open>The properties of the specification\<close>

text \<open>
  C1 (per-millisecond uniqueness). A caller issues \<open>n\<close> calls while the clock reads the same
  millisecond \<open>t\<close>, on any generator and with any random draws, and every call returns. Then
  the sequence fields of the ids issued are pairwise different, each of them is recorded in
  \<open>generated_sequences\<close>, and the ids themselves are pairwise different. This holds for
  every \<open>n\<close>, so for every \<open>n\<close> up to 4096.
\<close>

theorem frozen_clock_no_duplicates:
  assumes "generate_ids rnd g (replicate n t) pos = Some (rs, g', pos')"
  shows "distinct (map (\<lambda>i. snd (snd (parse_snowflake_id i (epoch g)))) (ids_of rs))
       \<and> set (map (\<lambda>i. snd (snd (parse_snowflake_id i (epoch g)))) (ids_of rs))
            \<subseteq> generated_sequences g'
       \<and> distinct (ids_of rs)"
proof -
  have eq: "map (\<lambda>i. snd (snd (parse_snowflake_id i (epoch g)))) (ids_of rs)
      = map (take_bit 12) (ids_of rs)"
    by (simp add: parse_sequence)
  from frozen_any [OF assms] have d: "distinct (map (take_bit 12) (ids_of rs))"
    and sub: "set (map (take_bit 12) (ids_of rs)) \<subseteq> generated_sequences g'" by simp_all
  from d have "distinct (ids_of rs)" by (rule distinct_map_imp_distinct)
  with d sub show ?thesis unfolding eq by simp
qed

theorem frozen_clock_no_duplicates_witness:
  "generate_ids (\<lambda>i. i div 2)
     \<lparr>epoch = 1577836800000, machine_id = 1, last_timestamp = - 1, generated_sequences = {}\<rparr>
     (replicate 3 1577836805000) 0
   = Some ([Inr 20971524096, Inr 20971524097, Inr 20971524098],
           \<lparr>epoch = 1577836800000, machine_id = 1, last_timestamp = 1577836805000,
            generated_sequences = {0, 1, 2}\<rparr>, 5)
   \<and> distinct (map (\<lambda>i. snd (snd (parse_snowflake_id i 1577836800000)))
        [20971524096, 20971524097, 20971524098])
   \<and> distinct [20971524096 :: int, 20971524097, 20971524098]"
proof -
  have run: "generate_ids (\<lambda>i. i div 2)
     \<lparr>epoch = 1577836800000, machine_id = 1, last_timestamp = - 1, generated_sequences = {}\<rparr>
     (replicate 3 1577836805000) 0
   = Some ([Inr 20971524096, Inr 20971524097, Inr 20971524098],
           \<lparr>epoch = 1577836800000, machine_id = 1, last_timestamp = 1577836805000,
            generated_sequences = {0, 1, 2}\<rparr>, 5)"
    by code_simp
  from frozen_clock_no_duplicates [OF run] run show ?thesis by simp
qed

text \<open>
  C2 (round trip). A generator is built by the constructor with \<open>e\<close> and \<open>m\<close> and has served
  any number of calls. When a further call at the clock reading \<open>t\<close> returns the id \<open>i\<close>,
  \<open>parse_snowflake_id i e\<close> is the reading \<open>t\<close>, the machine id \<open>m\<close> and the very sequence
  value that the loop of this call allocated.
\<close>

theorem generate_id_round_trip:
  assumes "init e m = Inr g0"
    and "generate_ids rnd g0 ts pos0 = Some (rs, g, pos1)"
    and "generate_id rnd' g t pos = Some (Inr i, g', pos')"
  shows "\<exists>s. sequence_loop rnd' (new_millisecond g t) pos = Some (s, g', pos')
           \<and> parse_snowflake_id i e = (t, m, s)"
proof -
  from assms(1) have m: "0 \<le> m" "m \<le> 1023" and g0: "epoch g0 = e" "machine_id g0 = m"
    by (auto simp add: init_def MAX_MACHINE_ID_value Let_def split: if_splits)
  from generate_ids_fields [OF assms(2)] g0 have g: "epoch g = e" "machine_id g = m" by simp_all
  from generate_id_Inr [OF assms(3)] g obtain s
    where loop: "sequence_loop rnd' (new_millisecond g t) pos = Some (s, g', pos')"
      and i: "i = pack (t - e) m s" by auto
  from sequence_loop_Some [OF loop] have "0 \<le> s" "s \<le> 4095" by simp_all
  from parse_pack [OF m this, of "t - e" e] i loop show ?thesis by simp
qed

theorem generate_id_round_trip_witness:
  "init 1577836800000 1 =
     Inr \<lparr>epoch = 1577836800000, machine_id = 1, last_timestamp = - 1, generated_sequences = {}\<rparr>
   \<and> generate_ids (\<lambda>i. i)
       \<lparr>epoch = 1577836800000, machine_id = 1, last_timestamp = - 1, generated_sequences = {}\<rparr>
       [1577836804999] 0
     = Some ([Inr 20967329792],
         \<lparr>epoch = 1577836800000, machine_id = 1, last_timestamp = 1577836804999,
          generated_sequences = {0}\<rparr>, 1)
   \<and> generate_id (\<lambda>i. 7)
       \<lparr>epoch = 1577836800000, machine_id = 1, last_timestamp = 1577836804999,
        generated_sequences = {0}\<rparr> 1577836805000 1
     = Some (Inr 20971524103,
         \<lparr>epoch = 1577836800000, machine_id = 1, last_timestamp = 1577836805000,
          generated_sequences = {7}\<rparr>, 2)
   \<and> parse_snowflake_id 20971524103 1577836800000 = (1577836805000, 1, 7)"
proof -
  have a: "init 1577836800000 1 =
     Inr \<lparr>epoch = 1577836800000, machine_id = 1, last_timestamp = - 1, generated_sequences = {}\<rparr>"
    by code_simp
  have b: "generate_ids (\<lambda>i. i)
       \<lparr>epoch = 1577836800000, machine_id = 1, last_timestamp = - 1, generated_sequences = {}\<rparr>
       [1577836804999] 0
     = Some ([Inr 20967329792],
         \<lparr>epoch = 1577836800000, machine_id = 1, last_timestamp = 1577836804999,
          generated_sequences = {0}\<rparr>, 1)"
    by code_simp
  have c: "generate_id (\<lambda>i. 7)
       \<lparr>epoch = 1577836800000, machine_id = 1, last_timestamp = 1577836804999,
        generated_sequences = {0}\<rparr> 1577836805000 1
     = Some (Inr 20971524103,
         \<lparr>epoch = 1577836800000, machine_id = 1, last_timestamp = 1577836805000,
          generated_sequences = {7}\<rparr>, 2)"
    by code_simp
  from generate_id_round_trip [OF a b c] obtain s where
    "sequence_loop (\<lambda>i. 7)
       (new_millisecond \<lparr>epoch = 1577836800000, machine_id = 1, last_timestamp = 1577836804999,
        generated_sequences = {0}\<rparr> 1577836805000) 1
     = Some (s, \<lparr>epoch = 1577836800000, machine_id = 1, last_timestamp = 1577836805000,
          generated_sequences = {7}\<rparr>, 2)"
    and p: "parse_snowflake_id 20971524103 1577836800000 = (1577836805000, 1, s)" by blast
  moreover have "sequence_loop (\<lambda>i. 7)
       (new_millisecond \<lparr>epoch = 1577836800000, machine_id = 1, last_timestamp = 1577836804999,
        generated_sequences = {0}\<rparr> 1577836805000) 1
     = Some (7, \<lparr>epoch = 1577836800000, machine_id = 1, last_timestamp = 1577836805000,
          generated_sequences = {7}\<rparr>, 2)"
    by code_simp
  ultimately have "s = 7" by simp
  with a b c p show ?thesis by simp
qed

text \<open>
  C3 (packing and unpacking). First part: the id that a call returns, on a generator built
  by the constructor with \<open>e\<close> and \<open>m\<close>, is \<open>(t - e) << 22 | m << 12 | s\<close> for the sequence \<open>s\<close>
  that the call allocated, and masking \<open>m\<close> and \<open>s\<close> to 10 and 12 bits first gives the same
  id. Second part: for a machine id in 0..1023 and a sequence in 0..4095, packing any
  timestamp delta and parsing the result with any epoch gives back the three values (the
  delta with the epoch added), at the boundary values 0, 1023 and 4095 in particular.
\<close>

theorem id_layout:
  "(init e m = Inr g0 \<longrightarrow> generate_ids rnd g0 ts pos0 = Some (rs, g, pos1) \<longrightarrow>
      generate_id rnd' g t pos = Some (Inr i, g', pos') \<longrightarrow>
      (\<exists>s. sequence_loop rnd' (new_millisecond g t) pos = Some (s, g', pos')
          \<and> i = (push_bit 22 (t - e) OR push_bit 12 m OR s)
          \<and> i = (push_bit 22 (t - e) OR push_bit 12 (m AND 1023) OR (s AND 4095))))
   \<and> (0 \<le> m2 \<and> m2 \<le> 1023 \<and> 0 \<le> s2 \<and> s2 \<le> 4095 \<longrightarrow>
        parse_snowflake_id (pack d m2 s2) e2 = (d + e2, m2, s2)
        \<and> pack d m2 s2 = (push_bit 22 d OR push_bit 12 m2 OR s2))
   \<and> parse_snowflake_id (pack d 0 0) e2 = (d + e2, 0, 0)
   \<and> parse_snowflake_id (pack d 1023 4095) e2 = (d + e2, 1023, 4095)"
proof (intro conjI impI)
  assume built: "init e m = Inr g0"
    and run: "generate_ids rnd g0 ts pos0 = Some (rs, g, pos1)"
    and call: "generate_id rnd' g t pos = Some (Inr i, g', pos')"
  from built have m: "0 \<le> m" "m \<le> 1023" and g0: "epoch g0 = e" "machine_id g0 = m"
    by (auto simp add: init_def MAX_MACHINE_ID_value Let_def split: if_splits)
  from generate_ids_fields [OF run] g0 have g: "epoch g = e" "machine_id g = m" by simp_all
  from generate_id_Inr [OF call] g obtain s
    where loop: "sequence_loop rnd' (new_millisecond g t) pos = Some (s, g', pos')"
      and i: "i = pack (t - e) m s" by auto
  from sequence_loop_Some [OF loop] have s: "0 \<le> s" "s \<le> 4095" by simp_all
  from pack_masked [OF m s, of "t - e"] i
  have "i = pack (t - e) (m AND 1023) (s AND 4095)" by (simp add: constant_values)
  with i loop
  show "\<exists>s. sequence_loop rnd' (new_millisecond g t) pos = Some (s, g', pos')
          \<and> i = (push_bit 22 (t - e) OR push_bit 12 m OR s)
          \<and> i = (push_bit 22 (t - e) OR push_bit 12 (m AND 1023) OR (s AND 4095))"
    by (auto simp add: pack_unfolded)
next
  assume "0 \<le> m2 \<and> m2 \<le> 1023 \<and> 0 \<le> s2 \<and> s2 \<le> 4095"
  then show "parse_snowflake_id (pack d m2 s2) e2 = (d + e2, m2, s2)"
    by (simp add: parse_pack)
next
  show "pack d m2 s2 = (push_bit 22 d OR push_bit 12 m2 OR s2)" by (rule pack_unfolded)
next
  show "parse_snowflake_id (pack d 0 0) e2 = (d + e2, 0, 0)" by (simp add: parse_pack)
next
  show "parse_snowflake_id (pack d 1023 4095) e2 = (d + e2, 1023, 4095)"
    by (simp add: parse_pack)
qed

theorem id_layout_witness:
  "init 1577836800000 1023 =
     Inr \<lparr>epoch = 1577836800000, machine_id = 1023, last_timestamp = - 1, generated_sequences = {}\<rparr>
   \<and> generate_ids (\<lambda>i. i)
       \<lparr>epoch = 1577836800000, machine_id = 1023, last_timestamp = - 1, generated_sequences = {}\<rparr>
       [] 0
     = Some ([],
         \<lparr>epoch = 1577836800000, machine_id = 1023, last_timestamp = - 1, generated_sequences = {}\<rparr>,
         0)
   \<and> generate_id (\<lambda>i. 4095)
       \<lparr>epoch = 1577836800000, machine_id = 1023, last_timestamp = - 1, generated_sequences = {}\<rparr>
       1577836805000 0
     = Some (Inr 20975714303,
         \<lparr>epoch = 1577836800000, machine_id = 1023, last_timestamp = 1577836805000,
          generated_sequences = {4095}\<rparr>, 1)
   \<and> (\<exists>s. sequence_loop (\<lambda>i. 4095)
         (new_millisecond
            \<lparr>epoch = 1577836800000, machine_id = 1023, last_timestamp = - 1, generated_sequences = {}\<rparr>
            1577836805000) 0
       = Some (s,
         \<lparr>epoch = 1577836800000, machine_id = 1023, last_timestamp = 1577836805000,
          generated_sequences = {4095}\<rparr>, 1)
       \<and> 20975714303 = (push_bit 22 (1577836805000 - 1577836800000) OR push_bit 12 1023 OR s)
       \<and> 20975714303 =
           (push_bit 22 (1577836805000 - 1577836800000) OR push_bit 12 (1023 AND 1023)
              OR (s AND 4095)))
   \<and> (0 :: int) \<le> 1023 \<and> (1023 :: int) \<le> 1023 \<and> (0 :: int) \<le> 4095 \<and> (4095 :: int) \<le> 4095
   \<and> parse_snowflake_id (pack 5000 1023 4095) 1577836800000 = (5000 + 1577836800000, 1023, 4095)"
proof -
  have a: "init 1577836800000 1023 =
     Inr \<lparr>epoch = 1577836800000, machine_id = 1023, last_timestamp = - 1, generated_sequences = {}\<rparr>"
    by code_simp
  have b: "generate_ids (\<lambda>i. i)
       \<lparr>epoch = 1577836800000, machine_id = 1023, last_timestamp = - 1, generated_sequences = {}\<rparr>
       [] 0
     = Some ([],
         \<lparr>epoch = 1577836800000, machine_id = 1023, last_timestamp = - 1, generated_sequences = {}\<rparr>,
         0)"
    by simp
  have c: "generate_id (\<lambda>i. 4095)
       \<lparr>epoch = 1577836800000, machine_id = 1023, last_timestamp = - 1, generated_sequences = {}\<rparr>
       1577836805000 0
     = Some (Inr 20975714303,
         \<lparr>epoch = 1577836800000, machine_id = 1023, last_timestamp = 1577836805000,
          generated_sequences = {4095}\<rparr>, 1)"
    by code_simp
  have r: "(0 :: int) \<le> 1023 \<and> (1023 :: int) \<le> 1023 \<and> (0 :: int) \<le> 4095 \<and> (4095 :: int) \<le> 4095"
    by simp
  note inst = id_layout [of 1577836800000 1023
      "\<lparr>epoch = 1577836800000, machine_id = 1023, last_timestamp = - 1, generated_sequences = {}\<rparr>"
      "\<lambda>i. i" "[]" 0 "[]"
      "\<lparr>epoch = 1577836800000, machine_id = 1023, last_timestamp = - 1, generated_sequences = {}\<rparr>"
      0 "\<lambda>i. 4095" 1577836805000 0 20975714303
      "\<lparr>epoch = 1577836800000, machine_id = 1023, last_timestamp = 1577836805000,
          generated_sequences = {4095}\<rparr>" 1 1023 4095 5000 1577836800000]
  from inst a b c have e: "(\<exists>s. sequence_loop (\<lambda>i. 4095)
         (new_millisecond
            \<lparr>epoch = 1577836800000, machine_id = 1023, last_timestamp = - 1, generated_sequences = {}\<rparr>
            1577836805000) 0
       = Some (s,
         \<lparr>epoch = 1577836800000, machine_id = 1023, last_timestamp = 1577836805000,
          generated_sequences = {4095}\<rparr>, 1)
       \<and> 20975714303 = (push_bit 22 (1577836805000 - 1577836800000) OR push_bit 12 1023 OR s)
       \<and> 20975714303 =
           (push_bit 22 (1577836805000 - 1577836800000) OR push_bit 12 (1023 AND 1023)
              OR (s AND 4095)))"
    by blast
  from inst r have p: "parse_snowflake_id (pack 5000 1023 4095) 1577836800000 = (5000 + 1577836800000, 1023, 4095)"
    by blast
  from a b c e r p show ?thesis by blast
qed

text \<open>
  C4 (clock regression). On every generator, with any draws, a call whose clock reading is
  strictly below \<open>last_timestamp\<close> raises the exception of line 30: it returns no id and
  leaves the generator, so \<open>last_timestamp\<close> and \<open>generated_sequences\<close>, as they were; no
  random value is drawn either.
\<close>

theorem clock_regression_rejected:
  assumes "timestamp < last_timestamp self"
  shows "generate_id rnd self timestamp pos =
      Some (Inl (Exception ''Clock moved backwards. Refusing to generate id''), self, pos)"
  using assms by (simp add: generate_id_def)

theorem clock_regression_rejected_witness:
  "(1577836804999 :: int) <
     last_timestamp \<lparr>epoch = 1577836800000, machine_id = 1, last_timestamp = 1577836805000,
                     generated_sequences = {7}\<rparr>
   \<and> generate_id (\<lambda>i. i)
       \<lparr>epoch = 1577836800000, machine_id = 1, last_timestamp = 1577836805000,
        generated_sequences = {7}\<rparr> 1577836804999 3
     = Some (Inl (Exception ''Clock moved backwards. Refusing to generate id''),
         \<lparr>epoch = 1577836800000, machine_id = 1, last_timestamp = 1577836805000,
          generated_sequences = {7}\<rparr>, 3)"
proof -
  have h: "(1577836804999 :: int) <
     last_timestamp \<lparr>epoch = 1577836800000, machine_id = 1, last_timestamp = 1577836805000,
                     generated_sequences = {7}\<rparr>"
    by simp
  from clock_regression_rejected [OF h] h show ?thesis by simp
qed

text \<open>
  C5 (exhausted sequence space), evaluated on the code. After 4096 calls that all returned
  an id at the clock reading \<open>t\<close>, every value of 0..4095 is in \<open>generated_sequences\<close>, and
  a further call that reads \<open>t\<close> again never returns, whatever the random draws are: the
  loop of lines 36 to 40 finds no free value and has no exit, and the clock is read once,
  on line 27, before the loop.
\<close>

theorem exhausted_millisecond_never_returns:
  assumes "generate_ids rnd g0 (replicate 4096 t) pos0 = Some (rs, g, pos)"
    and "last_timestamp g0 \<le> t"
  shows "length (ids_of rs) = 4096 \<and> {0..4095} \<subseteq> generated_sequences g
       \<and> generate_id rnd' g t pos' = None"
proof -
  from exhausted_after_4096 [OF assms] have full: "{0..4095} \<subseteq> generated_sequences g"
    and last: "last_timestamp g = t" by simp_all
  from frozen_run [OF assms] have len: "length (ids_of rs) = 4096" by simp
  from generate_id_exhausted [OF full last] full len show ?thesis by simp
qed

theorem exhausted_millisecond_never_returns_witness:
  "\<exists>rs g. generate_ids (\<lambda>i. i)
       \<lparr>epoch = 1577836800000, machine_id = 1, last_timestamp = - 1, generated_sequences = {}\<rparr>
       (replicate 4096 1577836805000) 0 = Some (rs, g, 4096)
     \<and> last_timestamp
         \<lparr>epoch = 1577836800000, machine_id = 1, last_timestamp = - 1, generated_sequences = {}\<rparr>
         \<le> 1577836805000
     \<and> length (ids_of rs) = 4096
     \<and> generate_id (\<lambda>i. i) g 1577836805000 4096 = None"
proof -
  let ?g0 = "\<lparr>epoch = 1577836800000, machine_id = 1, last_timestamp = - 1,
               generated_sequences = {}\<rparr>"
  have le: "last_timestamp ?g0 \<le> 1577836805000" by simp
  have "generated_sequences (new_millisecond ?g0 1577836805000) = int ` {0..<0}"
    by (simp add: new_millisecond_def)
  from counting_run [OF le this, of 4096] obtain rs g
    where run: "generate_ids (\<lambda>i. i) ?g0 (replicate 4096 1577836805000) 0 = Some (rs, g, 4096)"
    by auto
  from exhausted_millisecond_never_returns [OF run le, of "\<lambda>i. i" 4096] run le
  show ?thesis by blast
qed

text \<open>
  C6 (construction). The constructor raises \<open>ValueError\<close> exactly when the machine id is
  below 0 or above 1023; otherwise it returns the generator with the epoch and the machine
  id it was given, \<open>last_timestamp = -1\<close> and no sequence in use. The epoch is never
  examined. Machine ids -1 and 1024 are rejected, 0 and 1023 are accepted.
\<close>

theorem init_validation:
  "init e m =
     (if m < 0 \<or> 1023 < m then Inl (ValueError ''Machine ID must be between 0 and 1023'')
      else Inr \<lparr>epoch = e, machine_id = m, last_timestamp = - 1, generated_sequences = {}\<rparr>)
   \<and> isl (init e m) = (m < 0 \<or> 1023 < m)
   \<and> init e (- 1) = Inl (ValueError ''Machine ID must be between 0 and 1023'')
   \<and> init e 1024 = Inl (ValueError ''Machine ID must be between 0 and 1023'')
   \<and> init e 0 = Inr \<lparr>epoch = e, machine_id = 0, last_timestamp = - 1, generated_sequences = {}\<rparr>
   \<and> init e 1023 =
       Inr \<lparr>epoch = e, machine_id = 1023, last_timestamp = - 1, generated_sequences = {}\<rparr>"
  by (simp add: init_def MAX_MACHINE_ID_value)

text \<open>
  C7 (the decoder). \<open>parse_snowflake_id\<close> is a total function: for every integer id and
  every integer epoch it returns the timestamp \<open>(id >> 22) + epoch\<close>, the machine id
  \<open>(id >> 12) & 0x3FF\<close> and the sequence \<open>id & 0xFFF\<close>, and it examines nothing else. On an
  id that is an unsigned 64-bit value these are the same shifts and masks computed on the
  64-bit word.
\<close>

theorem parse_snowflake_id_fields:
  "parse_snowflake_id snowflake_id e =
     (drop_bit 22 snowflake_id + e, drop_bit 12 snowflake_id AND 0x3FF, snowflake_id AND 0xFFF)
   \<and> parse_snowflake_id (uint (w :: 64 word)) e =
     (uint (drop_bit 22 w) + e, uint (drop_bit 12 w AND 0x3FF), uint (w AND 0xFFF))"
proof -
  have "uint w < 2 ^ 64" using uint_lt2p [of w] by simp
  then have "take_bit 64 (uint w) = uint w" by (simp add: take_bit_int_eq_self)
  then show ?thesis
    by (simp add: parse_snowflake_id_def constant_values uint_and unsigned_drop_bit_eq)
qed

text \<open>
  C8 (monotonic timestamp field). A generator built by the constructor with epoch \<open>e\<close>
  serves the calls of a run. For two calls of the run that returned ids, at clock readings
  \<open>ts ! j < ts ! k\<close>, the timestamp decoded from the first id is at most the timestamp
  decoded from the second; each decoded timestamp is the clock reading of its call.
\<close>

theorem timestamp_field_monotonic:
  assumes "init e m = Inr g0"
    and "generate_ids rnd g0 ts pos0 = Some (rs, g, pos)"
    and "j < length ts" "k < length ts"
    and "rs ! j = Inr id1" "rs ! k = Inr id2"
    and "ts ! j < ts ! k"
  shows "fst (parse_snowflake_id id1 e) \<le> fst (parse_snowflake_id id2 e)
       \<and> fst (parse_snowflake_id id1 e) = ts ! j \<and> fst (parse_snowflake_id id2 e) = ts ! k"
proof -
  from assms(1) have m: "0 \<le> machine_id g0" "machine_id g0 \<le> 1023" and e: "epoch g0 = e"
    by (auto simp add: init_def MAX_MACHINE_ID_value Let_def split: if_splits)
  from generate_ids_nth [OF assms(2) m assms(3,5)] e
  have first: "fst (parse_snowflake_id id1 e) = ts ! j" by simp
  from generate_ids_nth [OF assms(2) m assms(4,6)] e
  have second: "fst (parse_snowflake_id id2 e) = ts ! k" by simp
  from first second assms(7) show ?thesis by simp
qed

theorem timestamp_field_monotonic_witness:
  "init 1577836800000 1 =
     Inr \<lparr>epoch = 1577836800000, machine_id = 1, last_timestamp = - 1, generated_sequences = {}\<rparr>
   \<and> generate_ids (\<lambda>i. i)
       \<lparr>epoch = 1577836800000, machine_id = 1, last_timestamp = - 1, generated_sequences = {}\<rparr>
       [1577836805000, 1577836805001] 0
     = Some ([Inr 20971524096, Inr 20975718401],
         \<lparr>epoch = 1577836800000, machine_id = 1, last_timestamp = 1577836805001,
          generated_sequences = {1}\<rparr>, 2)
   \<and> [1577836805000, 1577836805001 :: int] ! 0 < [1577836805000, 1577836805001] ! 1
   \<and> fst (parse_snowflake_id 20971524096 1577836800000)
       \<le> fst (parse_snowflake_id 20975718401 1577836800000)"
proof -
  have a: "init 1577836800000 1 =
     Inr \<lparr>epoch = 1577836800000, machine_id = 1, last_timestamp = - 1, generated_sequences = {}\<rparr>"
    by code_simp
  have b: "generate_ids (\<lambda>i. i)
       \<lparr>epoch = 1577836800000, machine_id = 1, last_timestamp = - 1, generated_sequences = {}\<rparr>
       [1577836805000, 1577836805001] 0
     = Some ([Inr 20971524096, Inr 20975718401],
         \<lparr>epoch = 1577836800000, machine_id = 1, last_timestamp = 1577836805001,
          generated_sequences = {1}\<rparr>, 2)"
    by code_simp
  have c: "[1577836805000, 1577836805001 :: int] ! 0 < [1577836805000, 1577836805001] ! 1"
    by simp
  have j: "0 < length [1577836805000, 1577836805001 :: int]"
    and k: "1 < length [1577836805000, 1577836805001 :: int]" by simp_all
  have r1: "[Inr 20971524096, Inr 20975718401 :: error + int] ! 0 = Inr 20971524096"
    and r2: "[Inr 20971524096, Inr 20975718401 :: error + int] ! 1 = Inr 20975718401"
    by simp_all
  from timestamp_field_monotonic [OF a b j k r1 r2 c]
  have "fst (parse_snowflake_id 20971524096 1577836800000)
       \<le> fst (parse_snowflake_id 20975718401 1577836800000)" by (rule conjunct1)
  with a b c show ?thesis by blast
qed

text \<open>
  C9 (frame), as the code has it. A call that returns, with an id or with the exception,
  leaves a generator that differs from the one it was given in \<open>last_timestamp\<close> and
  \<open>generated_sequences\<close> at most: \<open>epoch\<close> and \<open>machine_id\<close> are unchanged. Besides the
  generator, a call that returns an id moves the state of the \<open>random\<close> module forward, by
  the draws of its loop, at least one; a call that raises the exception changes neither
  the generator nor the state of the \<open>random\<close> module. After any number of calls on a
  generator built by the constructor with \<open>e\<close> and \<open>m\<close>, the epoch is still \<open>e\<close> and the
  machine id still \<open>m\<close>.
\<close>

theorem generate_id_effects:
  "(generate_id rnd g t pos = Some (r, g', pos') \<longrightarrow>
      g' = g\<lparr>last_timestamp := last_timestamp g', generated_sequences := generated_sequences g'\<rparr>
      \<and> epoch g' = epoch g \<and> machine_id g' = machine_id g
      \<and> (case r of Inr i \<Rightarrow> pos < pos' | Inl x \<Rightarrow> g' = g \<and> pos' = pos))
   \<and> (init e m = Inr g0 \<longrightarrow> generate_ids rnd g0 ts pos0 = Some (rs, g'', pos'') \<longrightarrow>
      epoch g'' = e \<and> machine_id g'' = m)"
proof (intro conjI impI)
  assume call: "generate_id rnd g t pos = Some (r, g', pos')"
  from generate_id_fields [OF call] show "epoch g' = epoch g" and "machine_id g' = machine_id g"
    by simp_all
  then show "g' = g\<lparr>last_timestamp := last_timestamp g',
                    generated_sequences := generated_sequences g'\<rparr>"
    by simp
  show "case r of Inr i \<Rightarrow> pos < pos' | Inl x \<Rightarrow> g' = g \<and> pos' = pos"
  proof (cases r)
    case (Inl x)
    with generate_id_Inl call show ?thesis by auto
  next
    case (Inr i)
    with generate_id_Inr call obtain s
      where "sequence_loop rnd (new_millisecond g t) pos = Some (s, g', pos')" by blast
    from sequence_loop_Some [OF this] Inr show ?thesis by simp
  qed
next
  assume built: "init e m = Inr g0" and run: "generate_ids rnd g0 ts pos0 = Some (rs, g'', pos'')"
  from built have "epoch g0 = e" "machine_id g0 = m"
    by (auto simp add: init_def Let_def split: if_splits)
  with generate_ids_fields [OF run] show "epoch g'' = e" and "machine_id g'' = m" by simp_all
qed

theorem generate_id_effects_witness:
  "generate_id id
       \<lparr>epoch = 1577836800000, machine_id = 1, last_timestamp = 1577836805001,
        generated_sequences = {1}\<rparr> 1577836805001 1
     = Some (Inr 20975718402,
       \<lparr>epoch = 1577836800000, machine_id = 1, last_timestamp = 1577836805001,
        generated_sequences = {1, 2}\<rparr>, 3)
   \<and> \<lparr>epoch = 1577836800000, machine_id = 1, last_timestamp = 1577836805001,
        generated_sequences = {1, 2}\<rparr>
     = \<lparr>epoch = 1577836800000, machine_id = 1, last_timestamp = 1577836805001,
        generated_sequences = {1}\<rparr>
       \<lparr>last_timestamp := last_timestamp
          \<lparr>epoch = 1577836800000, machine_id = 1, last_timestamp = 1577836805001,
        generated_sequences = {1, 2}\<rparr>,
        generated_sequences := generated_sequences
          \<lparr>epoch = 1577836800000, machine_id = 1, last_timestamp = 1577836805001,
        generated_sequences = {1, 2}\<rparr>\<rparr>
   \<and> (1 :: nat) < 3
   \<and> init 1577836800000 1 =
     Inr \<lparr>epoch = 1577836800000, machine_id = 1, last_timestamp = - 1, generated_sequences = {}\<rparr>
   \<and> generate_ids id
       \<lparr>epoch = 1577836800000, machine_id = 1, last_timestamp = - 1, generated_sequences = {}\<rparr>
       [1577836805000, 1577836805001] 0
     = Some ([Inr 20971524096, Inr 20975718401],
       \<lparr>epoch = 1577836800000, machine_id = 1, last_timestamp = 1577836805001,
        generated_sequences = {1}\<rparr>, 2)
   \<and> epoch \<lparr>epoch = 1577836800000, machine_id = 1, last_timestamp = 1577836805001,
        generated_sequences = {1}\<rparr> = 1577836800000
     \<and> machine_id \<lparr>epoch = 1577836800000, machine_id = 1, last_timestamp = 1577836805001,
        generated_sequences = {1}\<rparr> = 1"
proof -
  have a: "generate_id id
       \<lparr>epoch = 1577836800000, machine_id = 1, last_timestamp = 1577836805001,
        generated_sequences = {1}\<rparr> 1577836805001 1
     = Some (Inr 20975718402,
       \<lparr>epoch = 1577836800000, machine_id = 1, last_timestamp = 1577836805001,
        generated_sequences = {1, 2}\<rparr>, 3)"
    by code_simp
  have b: "init 1577836800000 1 =
     Inr \<lparr>epoch = 1577836800000, machine_id = 1, last_timestamp = - 1, generated_sequences = {}\<rparr>"
    by code_simp
  have c: "generate_ids id
       \<lparr>epoch = 1577836800000, machine_id = 1, last_timestamp = - 1, generated_sequences = {}\<rparr>
       [1577836805000, 1577836805001] 0
     = Some ([Inr 20971524096, Inr 20975718401],
       \<lparr>epoch = 1577836800000, machine_id = 1, last_timestamp = 1577836805001,
        generated_sequences = {1}\<rparr>, 2)"
    by code_simp
  note inst = generate_id_effects [of id
      "\<lparr>epoch = 1577836800000, machine_id = 1, last_timestamp = 1577836805001,
        generated_sequences = {1}\<rparr>" 1577836805001 1 "Inr 20975718402"
      "\<lparr>epoch = 1577836800000, machine_id = 1, last_timestamp = 1577836805001,
        generated_sequences = {1, 2}\<rparr>" 3 1577836800000 1
      "\<lparr>epoch = 1577836800000, machine_id = 1, last_timestamp = - 1, generated_sequences = {}\<rparr>"
      "[1577836805000, 1577836805001]" 0 "[Inr 20971524096, Inr 20975718401]"
      "\<lparr>epoch = 1577836800000, machine_id = 1, last_timestamp = 1577836805001,
        generated_sequences = {1}\<rparr>" 2]
  from inst a have d1: "\<lparr>epoch = 1577836800000, machine_id = 1, last_timestamp = 1577836805001,
        generated_sequences = {1, 2}\<rparr>
     = \<lparr>epoch = 1577836800000, machine_id = 1, last_timestamp = 1577836805001,
        generated_sequences = {1}\<rparr>
       \<lparr>last_timestamp := last_timestamp
          \<lparr>epoch = 1577836800000, machine_id = 1, last_timestamp = 1577836805001,
        generated_sequences = {1, 2}\<rparr>,
        generated_sequences := generated_sequences
          \<lparr>epoch = 1577836800000, machine_id = 1, last_timestamp = 1577836805001,
        generated_sequences = {1, 2}\<rparr>\<rparr>"
    by blast
  from inst a have d2: "(1 :: nat) < 3"
    by simp
  from inst b c have d3: "epoch \<lparr>epoch = 1577836800000, machine_id = 1, last_timestamp = 1577836805001,
        generated_sequences = {1}\<rparr> = 1577836800000
     \<and> machine_id \<lparr>epoch = 1577836800000, machine_id = 1, last_timestamp = 1577836805001,
        generated_sequences = {1}\<rparr> = 1"
    by blast
  from a d1 d2 b c d3 show ?thesis by blast
qed

text \<open>
  The claim C9 as the specification words it, that a call which returns an id has no
  effect besides \<open>last_timestamp\<close> and \<open>generated_sequences\<close>, fails on the code: the
  call below finds the state of the \<open>random\<close> module at position 1 and leaves it at
  position 3, after the two draws of line 37.
\<close>

theorem generate_id_frame_counterexample:
  "generate_id id
       \<lparr>epoch = 1577836800000, machine_id = 1, last_timestamp = 1577836805001,
        generated_sequences = {1}\<rparr> 1577836805001 1
     = Some (Inr 20975718402,
       \<lparr>epoch = 1577836800000, machine_id = 1, last_timestamp = 1577836805001,
        generated_sequences = {1, 2}\<rparr>, 3)
   \<and> (3 :: nat) \<noteq> 1"
  by code_simp

text \<open>
  C10 (the decoder clamps the small fields). For every integer id, so for every
  non-negative one of any width, and for every epoch, the machine id that
  \<open>parse_snowflake_id\<close> returns is in 0..1023 and the sequence in 0..4095.
\<close>

theorem parse_snowflake_id_clamps:
  "0 \<le> fst (snd (parse_snowflake_id snowflake_id e))
   \<and> fst (snd (parse_snowflake_id snowflake_id e)) \<le> 1023
   \<and> 0 \<le> snd (snd (parse_snowflake_id snowflake_id e))
   \<and> snd (snd (parse_snowflake_id snowflake_id e)) \<le> 4095"
  using take_bit_int_less_exp [of 10 "drop_bit 12 snowflake_id"]
    take_bit_int_less_exp [of 12 snowflake_id]
  by (simp add: parse_unfolded)

end
